theory Spec2Isabelle
  imports Main "HOL-Library.Word"
begin

section \<open>JavaScript values\<close>

text \<open>
  A JavaScript string is a sequence of UTF-16 code units. ASCII literals of the source
  are written \<open>js ''...''\<close>; the em-dash of \<open>cancelMessage\<close> is the single code unit
  U+2014.
\<close>

type_synonym jsstring = "16 word list"

definition js :: "string \<Rightarrow> jsstring" where
  "js s = map (\<lambda>c. of_nat (of_char c)) s"

definition em_dash :: "16 word" where
  "em_dash = 0x2014"

text \<open>\<open>`${n}`\<close> for a non-negative integer \<open>n\<close> such as \<open>Date.now()\<close>: its decimal digits.\<close>

fun toString_nat :: "nat \<Rightarrow> jsstring" where
  "toString_nat n =
     (if n < 10 then [of_nat (48 + n)]
      else toString_nat (n div 10) @ [of_nat (48 + n mod 10)])"

declare toString_nat.simps [simp del]

text \<open>Truthiness of \<open>string | null | undefined\<close>: only a non-empty string is truthy.\<close>

definition truthy :: "jsstring option \<Rightarrow> bool" where
  "truthy v = (case v of None \<Rightarrow> False | Some s \<Rightarrow> s \<noteq> [])"

text \<open>\<open>v || ''\<close> on an optional string.\<close>

definition or_empty :: "jsstring option \<Rightarrow> jsstring" where
  "or_empty v = (case v of None \<Rightarrow> [] | Some s \<Rightarrow> s)"

definition startsWith :: "jsstring \<Rightarrow> jsstring \<Rightarrow> bool" where
  "startsWith s p = (take (length p) s = p)"

text \<open>\<open>String.prototype.trim\<close>: strips WhiteSpace and LineTerminator code units at both ends.\<close>

definition js_whitespace :: "16 word \<Rightarrow> bool" where
  "js_whitespace c =
     (c \<in> set [0x9, 0xA, 0xB, 0xC, 0xD, 0x20, 0xA0, 0x1680, 0x2000, 0x2001, 0x2002, 0x2003,
               0x2004, 0x2005, 0x2006, 0x2007, 0x2008, 0x2009, 0x200A, 0x2028, 0x2029,
               0x202F, 0x205F, 0x3000, 0xFEFF])"

definition trim :: "jsstring \<Rightarrow> jsstring" where
  "trim s = rev (dropWhile js_whitespace (rev (dropWhile js_whitespace s)))"

text \<open>
  A value caught by \<open>catch (error)\<close>: an \<open>Error\<close> object (a \<open>DOMException\<close> included) with
  its \<open>name\<close> and \<open>message\<close>, some other non-nullish value with what its \<open>name\<close> property
  reads as, or \<open>null\<close>/\<open>undefined\<close>.
\<close>

datatype thrown =
    ErrorObj jsstring jsstring
  | NonError "jsstring option"
  | Nullish

text \<open>\<open>error instanceof Error ? error.message : fallback\<close>\<close>

definition error_text :: "thrown \<Rightarrow> jsstring \<Rightarrow> jsstring" where
  "error_text e fallback = (case e of ErrorObj n m \<Rightarrow> m | _ \<Rightarrow> fallback)"

text \<open>
  The drafts are kept in a plain object. Reading a property of it gives an own entry if
  there is one; for a name with no own entry that every object inherits from
  \<open>Object.prototype\<close> it gives that inherited member, a function or an object and not a
  string; for any other name it gives \<open>undefined\<close>.
\<close>

datatype jsvalue = Str jsstring | Inherited jsstring

definition object_prototype_members :: "jsstring list" where
  "object_prototype_members =
     [js ''constructor'', js ''__defineGetter__'', js ''__defineSetter__'', js ''hasOwnProperty'',
      js ''__lookupGetter__'', js ''__lookupSetter__'', js ''isPrototypeOf'',
      js ''propertyIsEnumerable'', js ''toString'', js ''valueOf'', js ''__proto__'',
      js ''toLocaleString'']"

text \<open>\<open>drafts[chatId] || ''\<close>: an inherited member is truthy, an empty string is not.\<close>

definition read_draft :: "(jsstring \<rightharpoonup> jsvalue) \<Rightarrow> jsstring \<Rightarrow> jsvalue" where
  "read_draft drafts cid =
     (case drafts cid of
        Some (Str s) \<Rightarrow> Str s
      | Some (Inherited n) \<Rightarrow> Inherited n
      | None \<Rightarrow> if cid \<in> set object_prototype_members then Inherited cid else Str [])"

section \<open>Data model (types/chat.types.ts)\<close>

datatype MessageRole = User | Assistant

datatype MessageStatus = Sending | Sent | Failed | Typing | Thinking | Interrupted

record Message =
  id_msg :: jsstring
  chatId :: jsstring
  role :: MessageRole
  content :: jsstring
  timestamp :: jsstring
  status :: "MessageStatus option"
  wasInterrupted :: "bool option"

record Chat =
  id_chat :: jsstring
  userId :: jsstring
  title :: jsstring
  lastMessage :: "jsstring option"
  lastMessageAt :: jsstring
  createdAt :: jsstring
  messageCount :: nat

record ChatState =
  currentChatId :: "jsstring option"
  chats :: "Chat list"
  messages :: "jsstring \<rightharpoonup> Message list"
  draftMessages :: "jsstring \<rightharpoonup> jsvalue"
  isLoadingMessages :: bool
  isLoadingChats :: bool
  isSendingMessage :: bool
  isSwitchingChat :: bool
  isAITyping :: bool
  isAIThinking :: bool
  isCreatingChat :: bool
  isExporting :: bool
  isDeletingChat :: bool
  hasMoreMessages :: "jsstring \<rightharpoonup> bool"
  nextCursor :: "jsstring option"
  error :: "jsstring option"
  typingMessage :: "jsstring option"

definition initialState :: ChatState where
  "initialState =
     \<lparr> currentChatId = None, chats = [], messages = Map.empty, draftMessages = Map.empty,
       isLoadingMessages = False, isLoadingChats = False, isSendingMessage = False,
       isSwitchingChat = False, isAITyping = False, isAIThinking = False,
       isCreatingChat = False, isExporting = False, isDeletingChat = False,
       hasMoreMessages = Map.empty, nextCursor = None, error = None, typingMessage = None \<rparr>"

text \<open>
  \<open>prev.messages[chatId] || []\<close> (an array, even an empty one, is truthy). The model reads
  own entries only: a chat whose list is read is taken to have an own entry, or an id that
  is not the name of a member inherited from \<open>Object.prototype\<close>.
\<close>

definition msgs_of :: "ChatState \<Rightarrow> jsstring \<Rightarrow> Message list" where
  "msgs_of s c = (case messages s c of None \<Rightarrow> [] | Some xs \<Rightarrow> xs)"

section \<open>The provider's refs (contexts/ChatContext.tsx)\<close>

text \<open>
  \<open>abortControllerRef\<close> holds a reference to an \<open>AbortController\<close>; the continuation of a
  send keeps its own reference to the controller it read. Controllers therefore live in a
  store: \<open>signal_aborted \<sigma> c\<close> is \<open>controller.signal.aborted\<close> of controller \<open>c\<close>, and
  \<open>new AbortController()\<close> takes the next unused number. \<open>typingIntervalRef\<close> holds the
  running interval, that is the closure variables of \<open>startTypingAnimation\<close>.
\<close>

record TypingJob =
  chars :: jsstring
  messageId :: jsstring
  currentIndex :: nat

record Session =
  state :: ChatState
  abortControllerRef :: "nat option"
  signal_aborted :: "nat \<Rightarrow> bool"
  nextController :: nat
  typingIntervalRef :: "TypingJob option"

definition initialSession :: Session where
  "initialSession =
     \<lparr> state = initialState, abortControllerRef = None, signal_aborted = (\<lambda>c. False),
       nextController = 0, typingIntervalRef = None \<rparr>"

definition clearTypingAnimation :: "Session \<Rightarrow> Session" where
  "clearTypingAnimation \<sigma> = \<sigma>\<lparr>typingIntervalRef := None\<rparr>"

text \<open>\<open>if (ref.current) { ref.current.abort(); ref.current = null; }\<close>\<close>

definition abort_and_release :: "Session \<Rightarrow> Session" where
  "abort_and_release \<sigma> =
     (case abortControllerRef \<sigma> of
        None \<Rightarrow> \<sigma>
      | Some c \<Rightarrow> \<sigma>\<lparr>signal_aborted := (signal_aborted \<sigma>)(c := True), abortControllerRef := None\<rparr>)"

section \<open>loadChats and loadMessages\<close>

record MessagesPage =
  messages_page :: "Message list"
  hasMore :: bool
  nextCursor_page :: "jsstring option"

definition loadChats_begin :: "ChatState \<Rightarrow> ChatState" where
  "loadChats_begin prev = prev\<lparr>isLoadingChats := True, error := None\<rparr>"

definition loadChats_ok :: "Chat list \<Rightarrow> ChatState \<Rightarrow> ChatState" where
  "loadChats_ok cs prev = prev\<lparr>chats := cs, isLoadingChats := False\<rparr>"

definition loadChats_fail :: "thrown \<Rightarrow> ChatState \<Rightarrow> ChatState" where
  "loadChats_fail e prev =
     prev\<lparr>isLoadingChats := False, error := Some (error_text e (js ''Failed to load chats''))\<rparr>"

definition loadMessages_begin :: "ChatState \<Rightarrow> ChatState" where
  "loadMessages_begin prev = prev\<lparr>isLoadingMessages := True, error := None\<rparr>"

definition loadMessages_ok ::
  "jsstring \<Rightarrow> jsstring option \<Rightarrow> MessagesPage \<Rightarrow> ChatState \<Rightarrow> ChatState" where
  "loadMessages_ok cid cursor response prev =
     (let existingMessages = msgs_of prev cid;
          newMessages = (if truthy cursor then existingMessages @ messages_page response
                         else messages_page response)
      in prev\<lparr>messages := (messages prev)(cid \<mapsto> newMessages),
              hasMoreMessages := (hasMoreMessages prev)(cid \<mapsto> hasMore response),
              isLoadingMessages := False\<rparr>)"

definition loadMessages_fail :: "thrown \<Rightarrow> ChatState \<Rightarrow> ChatState" where
  "loadMessages_fail e prev =
     prev\<lparr>isLoadingMessages := False,
          error := Some (error_text e (js ''Failed to load messages''))\<rparr>"

text \<open>
  \<open>loadMessages(chatId, cursor)\<close> run to completion; the second argument is what
  \<open>mockApi.chat.getMessages\<close> settles with (\<open>Inl\<close>: it rejects).
\<close>

definition loadMessages ::
  "jsstring \<Rightarrow> jsstring option \<Rightarrow> thrown + MessagesPage \<Rightarrow> ChatState \<Rightarrow> ChatState" where
  "loadMessages cid cursor r prev =
     (case r of
        Inr response \<Rightarrow> loadMessages_ok cid cursor response (loadMessages_begin prev)
      | Inl e \<Rightarrow> loadMessages_fail e (loadMessages_begin prev))"

section \<open>selectChat and createNewChat\<close>

definition selectChat_update :: "jsstring \<Rightarrow> ChatState \<Rightarrow> ChatState" where
  "selectChat_update cid prev =
     prev\<lparr>currentChatId := Some cid,
          typingMessage := None,
          isSendingMessage := False,
          messages := (messages prev)(cid \<mapsto> []),
          hasMoreMessages := (hasMoreMessages prev)(cid \<mapsto> True),
          draftMessages := (draftMessages prev)(cid \<mapsto> read_draft (draftMessages prev) cid)\<rparr>"

definition selectChat :: "jsstring \<Rightarrow> thrown + MessagesPage \<Rightarrow> Session \<Rightarrow> Session" where
  "selectChat cid r \<sigma> =
     (let \<sigma>1 = abort_and_release (clearTypingAnimation \<sigma>)
      in \<sigma>1\<lparr>state := loadMessages cid None r (selectChat_update cid (state \<sigma>1))\<rparr>)"

definition createNewChat_update :: "jsstring \<Rightarrow> ChatState \<Rightarrow> ChatState" where
  "createNewChat_update newChatId prev =
     prev\<lparr>currentChatId := Some newChatId,
          messages := (messages prev)(newChatId \<mapsto> []),
          draftMessages := (draftMessages prev)(newChatId \<mapsto> Str []),
          typingMessage := None,
          isSendingMessage := False\<rparr>"

definition createNewChat :: "nat \<Rightarrow> Session \<Rightarrow> Session" where
  "createNewChat now \<sigma> =
     (let \<sigma>1 = abort_and_release (clearTypingAnimation \<sigma>)
      in \<sigma>1\<lparr>state := createNewChat_update (js ''new-chat-'' @ toString_nat now) (state \<sigma>1)\<rparr>)"

section \<open>The typing animation\<close>

definition typing_reveal :: "jsstring \<Rightarrow> ChatState \<Rightarrow> ChatState" where
  "typing_reveal partialMessage prev = prev\<lparr>typingMessage := Some partialMessage\<rparr>"

definition typing_complete :: "jsstring \<Rightarrow> jsstring \<Rightarrow> ChatState \<Rightarrow> ChatState" where
  "typing_complete mid fullMessage prev =
     (if \<not> truthy (currentChatId prev) then prev
      else let cid = or_empty (currentChatId prev);
               updatedMessages =
                 map (\<lambda>msg. if id_msg msg = mid
                             then msg\<lparr>content := fullMessage, status := Some Sent\<rparr> else msg)
                     (msgs_of prev cid)
           in prev\<lparr>messages := (messages prev)(cid \<mapsto> updatedMessages),
                   typingMessage := None,
                   isSendingMessage := False\<rparr>)"

definition startTypingAnimation :: "jsstring \<Rightarrow> jsstring \<Rightarrow> Session \<Rightarrow> Session" where
  "startTypingAnimation fullMessage mid \<sigma> =
     (clearTypingAnimation \<sigma>)
       \<lparr>typingIntervalRef := Some \<lparr>chars = fullMessage, messageId = mid, currentIndex = 0\<rparr>\<rparr>"

text \<open>One firing of the interval's callback; nothing fires once the interval is cleared.\<close>

definition typing_tick :: "Session \<Rightarrow> Session" where
  "typing_tick \<sigma> =
     (case typingIntervalRef \<sigma> of
        None \<Rightarrow> \<sigma>
      | Some job \<Rightarrow>
          if currentIndex job < length (chars job)
          then \<sigma>\<lparr>state := typing_reveal (take (currentIndex job + 1) (chars job)) (state \<sigma>),
                 typingIntervalRef := Some (job\<lparr>currentIndex := currentIndex job + 1\<rparr>)\<rparr>
          else (clearTypingAnimation \<sigma>)
                 \<lparr>state := typing_complete (messageId job) (chars job) (state \<sigma>)\<rparr>)"

section \<open>sendMessage\<close>

text \<open>The values the clock gives at the calls of \<open>Date.now()\<close> and \<open>new Date().toISOString()\<close>.\<close>

record SendClock =
  now_chat :: nat
  now_user :: nat
  iso_user :: jsstring
  now_thinking :: nat
  iso_thinking :: jsstring

definition userMessage :: "SendClock \<Rightarrow> jsstring \<Rightarrow> jsstring \<Rightarrow> Message" where
  "userMessage clk cid text =
     \<lparr> id_msg = js ''msg-'' @ toString_nat (now_user clk), chatId = cid, role = User,
       content = text, timestamp = iso_user clk, status = Some Sent, wasInterrupted = None \<rparr>"

definition thinkingMessage :: "SendClock \<Rightarrow> jsstring \<Rightarrow> Message" where
  "thinkingMessage clk cid =
     \<lparr> id_msg = js ''thinking-'' @ toString_nat (now_thinking clk), chatId = cid,
       role = Assistant, content = [], timestamp = iso_thinking clk,
       status = Some Thinking, wasInterrupted = None \<rparr>"

definition sendMessage_register :: "jsstring \<Rightarrow> ChatState \<Rightarrow> ChatState" where
  "sendMessage_register cid prev =
     prev\<lparr>currentChatId := Some cid, messages := (messages prev)(cid \<mapsto> [])\<rparr>"

definition sendMessage_optimistic ::
  "jsstring \<Rightarrow> Message \<Rightarrow> Message \<Rightarrow> ChatState \<Rightarrow> ChatState" where
  "sendMessage_optimistic cid um tm prev =
     prev\<lparr>isSendingMessage := True,
          error := None,
          messages := (messages prev)(cid \<mapsto> msgs_of prev cid @ [um, tm]),
          draftMessages := (draftMessages prev)(cid \<mapsto> Str [])\<rparr>"

text \<open>
  The synchronous part of \<open>sendMessage\<close>, up to its first \<open>await\<close>. \<open>None\<close>: it returned at
  \<open>if (!user) return\<close> and nothing changed. Otherwise the chat id it works on and the
  session after the optimistic update. \<open>state.currentChatId\<close> is the rendered state's.
\<close>

definition sendMessage_begin ::
  "SendClock \<Rightarrow> 'u option \<Rightarrow> jsstring \<Rightarrow> Session \<Rightarrow> (jsstring \<times> Session) option" where
  "sendMessage_begin clk user text \<sigma> =
     (if user = None then None
      else
        let captured = currentChatId (state \<sigma>);
            cid = (if truthy captured then or_empty captured
                   else js ''new-chat-'' @ toString_nat (now_chat clk));
            s1 = (if truthy captured then state \<sigma> else sendMessage_register cid (state \<sigma>));
            aborted = (case abortControllerRef \<sigma> of
                         None \<Rightarrow> signal_aborted \<sigma>
                       | Some c \<Rightarrow> (signal_aborted \<sigma>)(c := True));
            controller = nextController \<sigma>;
            s2 = sendMessage_optimistic cid (userMessage clk cid text) (thinkingMessage clk cid) s1
        in Some (cid, \<sigma>\<lparr>state := s2,
                         abortControllerRef := Some controller,
                         signal_aborted := aborted(controller := False),
                         nextController := controller + 1\<rparr>))"

definition sendMessage_rekey :: "jsstring \<Rightarrow> Chat \<Rightarrow> ChatState \<Rightarrow> ChatState" where
  "sendMessage_rekey cid newChat prev =
     (let actualChatId = id_chat newChat;
          tempMessages = msgs_of prev cid;
          newMessages = ((messages prev)(cid := None))
                          (actualChatId \<mapsto> map (\<lambda>msg. msg\<lparr>chatId := actualChatId\<rparr>) tempMessages)
      in prev\<lparr>currentChatId := Some actualChatId,
              chats := newChat # chats prev,
              messages := newMessages\<rparr>)"

definition sendMessage_reply :: "jsstring \<Rightarrow> Message \<Rightarrow> ChatState \<Rightarrow> ChatState" where
  "sendMessage_reply actualChatId aiResponse prev =
     (let currentMessages = msgs_of prev actualChatId;
          filteredMessages = filter (\<lambda>msg. status msg \<noteq> Some Thinking) currentMessages;
          aiMessageWithTyping = aiResponse\<lparr>chatId := actualChatId, status := Some Typing\<rparr>
      in prev\<lparr>messages := (messages prev)(actualChatId \<mapsto> filteredMessages @ [aiMessageWithTyping])\<rparr>)"

definition sendMessage_aborted :: "jsstring \<Rightarrow> ChatState \<Rightarrow> ChatState" where
  "sendMessage_aborted errorChatId prev =
     prev\<lparr>messages := (messages prev)
             (errorChatId \<mapsto> filter (\<lambda>msg. status msg \<noteq> Some Thinking) (msgs_of prev errorChatId)),
          isSendingMessage := False\<rparr>"

definition sendMessage_failed :: "jsstring \<Rightarrow> thrown \<Rightarrow> ChatState \<Rightarrow> ChatState" where
  "sendMessage_failed errorChatId e prev =
     prev\<lparr>messages := (messages prev)
             (errorChatId \<mapsto> filter (\<lambda>msg. status msg \<noteq> Some Thinking) (msgs_of prev errorChatId)),
          isSendingMessage := False,
          error := Some (error_text e (js ''Failed to send message''))\<rparr>"

text \<open>
  The \<open>catch\<close> block. \<open>captured\<close> is the \<open>state.currentChatId\<close> the callback closed over.
  Reading \<open>.name\<close> of \<open>null\<close>/\<open>undefined\<close> throws a TypeError out of the block, so that
  \<open>sendMessage\<close> rejects (first component \<open>Some\<close>); in every other case it resolves.
\<close>

definition sendMessage_catch ::
  "jsstring option \<Rightarrow> jsstring \<Rightarrow> thrown \<Rightarrow> Session \<Rightarrow> thrown option \<times> Session" where
  "sendMessage_catch captured cid e \<sigma> =
     (let errorChatId = (if truthy captured then or_empty captured else cid)
      in case e of
           Nullish \<Rightarrow> (Some (ErrorObj (js ''TypeError'') (js ''Cannot read properties of null'')), \<sigma>)
         | ErrorObj n m \<Rightarrow>
             if n = js ''AbortError''
             then (None, \<sigma>\<lparr>state := sendMessage_aborted errorChatId (state \<sigma>)\<rparr>)
             else (None, \<sigma>\<lparr>state := sendMessage_failed errorChatId e (state \<sigma>)\<rparr>)
         | NonError n \<Rightarrow>
             if n = Some (js ''AbortError'')
             then (None, \<sigma>\<lparr>state := sendMessage_aborted errorChatId (state \<sigma>)\<rparr>)
             else (None, \<sigma>\<lparr>state := sendMessage_failed errorChatId e (state \<sigma>)\<rparr>))"

text \<open>
  The response of \<open>mockApi.chat.sendMessage\<close> has arrived; \<open>controller\<close> is the reference
  read from \<open>abortControllerRef\<close> before the request was issued.
\<close>

definition sendMessage_arrived ::
  "jsstring \<Rightarrow> nat option \<Rightarrow> Message \<Rightarrow> Session \<Rightarrow> Session" where
  "sendMessage_arrived actualChatId controller aiResponse \<sigma> =
     (if (case controller of None \<Rightarrow> False | Some c \<Rightarrow> signal_aborted \<sigma> c) then \<sigma>
      else startTypingAnimation (content aiResponse) (id_msg aiResponse)
             (\<sigma>\<lparr>state := sendMessage_reply actualChatId aiResponse (state \<sigma>)\<rparr>))"

text \<open>What the backend collaborator settles the two requests of a send with.\<close>

record Backend =
  createChat_result :: "thrown + Chat"
  sendMessage_result :: "thrown + Message"

definition sendMessage_request ::
  "jsstring option \<Rightarrow> jsstring \<Rightarrow> jsstring \<Rightarrow> Backend \<Rightarrow> Session \<Rightarrow> thrown option \<times> Session" where
  "sendMessage_request captured cid actualChatId be \<sigma> =
     (let controller = abortControllerRef \<sigma>
      in case sendMessage_result be of
           Inl e \<Rightarrow> sendMessage_catch captured cid e \<sigma>
         | Inr aiResponse \<Rightarrow> (None, sendMessage_arrived actualChatId controller aiResponse \<sigma>))"

text \<open>
  \<open>sendMessage(content)\<close> run to completion with no other operation in between. The first
  component is the value the returned promise rejects with, if it rejects.
\<close>

definition sendMessage ::
  "SendClock \<Rightarrow> Backend \<Rightarrow> 'u option \<Rightarrow> jsstring \<Rightarrow> Session \<Rightarrow> thrown option \<times> Session" where
  "sendMessage clk be user text \<sigma> =
     (case sendMessage_begin clk user text \<sigma> of
        None \<Rightarrow> (None, \<sigma>)
      | Some (cid, \<sigma>1) \<Rightarrow>
          let captured = currentChatId (state \<sigma>)
          in if startsWith cid (js ''new-chat-'')
             then (case createChat_result be of
                     Inl e \<Rightarrow> sendMessage_catch captured cid e \<sigma>1
                   | Inr newChat \<Rightarrow>
                       sendMessage_request captured cid (id_chat newChat) be
                         (\<sigma>1\<lparr>state := sendMessage_rekey cid newChat (state \<sigma>1)\<rparr>))
             else sendMessage_request captured cid cid be \<sigma>1)"

section \<open>cancelMessage\<close>

datatype Outcome = OutcomeInterrupted | OutcomeCancelled

text \<open>A call \<open>mockApi.chat.updateMessage(chatId, messageId, status, finalContent)\<close>.\<close>

datatype BackendCall = UpdateMessage jsstring jsstring Outcome jsstring

definition cancel_typing :: "jsstring \<Rightarrow> Message \<Rightarrow> ChatState \<Rightarrow> ChatState \<times> BackendCall list" where
  "cancel_typing cid lastMsg prev =
     (let interruptedContent = (if truthy (typingMessage prev)
                                then or_empty (typingMessage prev) @ [em_dash] else []);
          updatedMessages =
            map (\<lambda>msg. if status msg = Some Typing
                        then msg\<lparr>content := interruptedContent, status := Some Interrupted,
                                 wasInterrupted := Some True\<rparr>
                        else msg)
                (msgs_of prev cid)
      in (prev\<lparr>messages := (messages prev)(cid \<mapsto> updatedMessages),
               isSendingMessage := False,
               typingMessage := None\<rparr>,
          if truthy (typingMessage prev)
          then [UpdateMessage cid (id_msg lastMsg) OutcomeInterrupted interruptedContent]
          else []))"

definition cancel_thinking ::
  "jsstring \<Rightarrow> Message \<Rightarrow> Message option \<Rightarrow> ChatState \<Rightarrow> ChatState \<times> BackendCall list" where
  "cancel_thinking cid lastMsg secondLastMessage prev =
     (let updatedMessages =
            map (\<lambda>msg. if status msg = Some Thinking
                        then msg\<lparr>content := [], status := Some Interrupted,
                                 wasInterrupted := Some True, role := Assistant\<rparr>
                        else msg)
                (msgs_of prev cid)
      in (prev\<lparr>messages := (messages prev)(cid \<mapsto> updatedMessages),
               isSendingMessage := False,
               typingMessage := None\<rparr>,
          if (case secondLastMessage of None \<Rightarrow> False | Some m \<Rightarrow> role m = User)
          then [UpdateMessage cid (id_msg lastMsg) OutcomeCancelled []]
          else []))"

text \<open>
  The state updater of \<open>cancelMessage\<close>, with the backend calls it makes. Both arms of
  \<open>if (isInterruption && newContent)\<close> hold the same code in the source.
\<close>

definition cancelMessage_update ::
  "bool \<Rightarrow> jsstring option \<Rightarrow> jsstring \<Rightarrow> ChatState \<Rightarrow> ChatState \<times> BackendCall list" where
  "cancelMessage_update isInterruption newContent cid prev =
     (let msgs = msgs_of prev cid;
          lastMessage = (if msgs = [] then None else Some (last msgs));
          secondLastMessage = (if length msgs < 2 then None else Some (msgs ! (length msgs - 2)));
          isTyping = ((case lastMessage of None \<Rightarrow> False | Some m \<Rightarrow> status m = Some Typing)
                      \<and> truthy (typingMessage prev));
          isThinking = (case lastMessage of None \<Rightarrow> False | Some m \<Rightarrow> status m = Some Thinking);
          nothing = (prev\<lparr>isSendingMessage := False, typingMessage := None\<rparr>, [])
      in if isInterruption \<and> truthy newContent
         then (if isTyping then cancel_typing cid (last msgs) prev
               else if isThinking then cancel_thinking cid (last msgs) secondLastMessage prev
               else nothing)
         else (if isTyping then cancel_typing cid (last msgs) prev
               else if isThinking then cancel_thinking cid (last msgs) secondLastMessage prev
               else nothing))"

definition cancelMessage ::
  "bool \<Rightarrow> jsstring option \<Rightarrow> Session \<Rightarrow> Session \<times> BackendCall list" where
  "cancelMessage isInterruption newContent \<sigma> =
     (let \<sigma>1 = clearTypingAnimation (abort_and_release \<sigma>)
      in if \<not> truthy (currentChatId (state \<sigma>1)) then (\<sigma>1, [])
         else let r = cancelMessage_update isInterruption newContent
                        (or_empty (currentChatId (state \<sigma>1))) (state \<sigma>1)
              in (\<sigma>1\<lparr>state := fst r\<rparr>, snd r))"

section \<open>Drafts, errors, deleteChat\<close>

definition exportChat_fail :: "thrown \<Rightarrow> ChatState \<Rightarrow> ChatState" where
  "exportChat_fail e prev = prev\<lparr>error := Some (error_text e (js ''Failed to export chat''))\<rparr>"

definition clearError :: "ChatState \<Rightarrow> ChatState" where
  "clearError prev = prev\<lparr>error := None\<rparr>"

definition saveDraft_update :: "jsstring \<Rightarrow> jsstring \<Rightarrow> ChatState \<Rightarrow> ChatState" where
  "saveDraft_update cid text prev =
     prev\<lparr>draftMessages := (draftMessages prev)(cid \<mapsto> Str (or_empty (Some text)))\<rparr>"


text \<open>
  \<open>getDraft\<close> is typed to return a string; what it returns is what the read of the draft
  object gives.
\<close>

definition getDraft :: "jsstring \<Rightarrow> Session \<Rightarrow> jsvalue" where
  "getDraft cid \<sigma> = (if cid = [] then Str [] else read_draft (draftMessages (state \<sigma>)) cid)"

record DeleteResult =
  success :: bool
  remainingChats :: "Chat list"

definition deleteChat_begin :: "ChatState \<Rightarrow> ChatState" where
  "deleteChat_begin prev = prev\<lparr>isDeletingChat := True, error := None\<rparr>"

definition deleteChat_ok :: "jsstring \<Rightarrow> ChatState \<Rightarrow> ChatState" where
  "deleteChat_ok cid prev =
     prev\<lparr>chats := filter (\<lambda>chat. id_chat chat \<noteq> cid) (chats prev),
          messages := (messages prev)(cid := None),
          draftMessages := (draftMessages prev)(cid := None),
          hasMoreMessages := (hasMoreMessages prev)(cid := None),
          currentChatId := (if currentChatId prev = Some cid then None else currentChatId prev),
          isDeletingChat := False,
          error := None\<rparr>"

definition deleteChat_fail :: "thrown \<Rightarrow> ChatState \<Rightarrow> ChatState" where
  "deleteChat_fail e prev =
     prev\<lparr>isDeletingChat := False, error := Some (error_text e (js ''Failed to delete chat''))\<rparr>"

text \<open>
  \<open>deleteChat(chatId)\<close> run to completion; \<open>r\<close> is what \<open>mockApi.chat.deleteChat\<close> settles
  with. The first component is the value the returned promise rejects with (the \<open>catch\<close>
  block rethrows).
\<close>

definition deleteChat ::
  "nat \<Rightarrow> jsstring \<Rightarrow> thrown + DeleteResult \<Rightarrow> Session \<Rightarrow> thrown option \<times> Session" where
  "deleteChat now cid r \<sigma> =
     (let captured = currentChatId (state \<sigma>);
          \<sigma>0 = \<sigma>\<lparr>state := deleteChat_begin (state \<sigma>)\<rparr>;
          \<sigma>1 = (if captured = Some cid \<and> abortControllerRef \<sigma>0 \<noteq> None
                then clearTypingAnimation (abort_and_release \<sigma>0) else \<sigma>0)
      in case r of
           Inl e \<Rightarrow> (Some e, \<sigma>1\<lparr>state := deleteChat_fail e (state \<sigma>1)\<rparr>)
         | Inr result \<Rightarrow>
             if success result
             then (let \<sigma>2 = \<sigma>1\<lparr>state := deleteChat_ok cid (state \<sigma>1)\<rparr>
                   in (None, if captured = Some cid then createNewChat now \<sigma>2 else \<sigma>2))
             else (None, \<sigma>1))"

section \<open>handleSend (components/Chat/InputArea.tsx)\<close>

text \<open>
  The input component keeps the typed text in its own state \<open>message\<close>. \<open>handleSend\<close>
  returns the text left in the input together with the session.
\<close>

definition handleSend ::
  "SendClock \<Rightarrow> Backend \<Rightarrow> 'u option \<Rightarrow> jsstring \<Rightarrow> Session \<Rightarrow> jsstring \<times> Session" where
  "handleSend clk be user message \<sigma> =
     (let trimmedMessage = trim message
      in if trimmedMessage = [] then (message, \<sigma>)
         else let \<sigma>1 = (if isSendingMessage (state \<sigma>) then fst (cancelMessage True None \<sigma>) else \<sigma>);
                  r = sendMessage clk be user trimmedMessage \<sigma>1
              in case fst r of
                   None \<Rightarrow> ([], snd r)
                 | Some e \<Rightarrow> (trimmedMessage, snd r))"

section \<open>In-flight messages\<close>

definition in_flight :: "Message \<Rightarrow> bool" where
  "in_flight m = (status m = Some Thinking \<or> status m = Some Typing)"

definition in_flight_count :: "Message list \<Rightarrow> nat" where
  "in_flight_count xs = length (filter in_flight xs)"

text \<open>
  Every state update of the provider, as one value: the argument each \<open>setState\<close> of
  \<open>ChatContext.tsx\<close> is called with, with the values its closure holds.
\<close>

datatype Update =
    LoadChatsBegin
  | LoadChatsOk "Chat list"
  | LoadChatsFail thrown
  | LoadMessagesBegin
  | LoadMessagesOk jsstring "jsstring option" MessagesPage
  | LoadMessagesFail thrown
  | SelectChat jsstring
  | CreateNewChat jsstring
  | TypingReveal jsstring
  | TypingComplete jsstring jsstring
  | SendRegister jsstring
  | SendOptimistic jsstring SendClock jsstring
  | SendRekey jsstring Chat
  | SendReply jsstring Message
  | SendAborted jsstring
  | SendFailed jsstring thrown
  | CancelMessage bool "jsstring option" jsstring
  | ExportFail thrown
  | ClearError
  | SaveDraft jsstring jsstring
  | DeleteBegin
  | DeleteOk jsstring
  | DeleteFail thrown

fun apply_update :: "Update \<Rightarrow> ChatState \<Rightarrow> ChatState" where
  "apply_update LoadChatsBegin s = loadChats_begin s"
| "apply_update (LoadChatsOk cs) s = loadChats_ok cs s"
| "apply_update (LoadChatsFail e) s = loadChats_fail e s"
| "apply_update LoadMessagesBegin s = loadMessages_begin s"
| "apply_update (LoadMessagesOk cid cursor response) s = loadMessages_ok cid cursor response s"
| "apply_update (LoadMessagesFail e) s = loadMessages_fail e s"
| "apply_update (SelectChat cid) s = selectChat_update cid s"
| "apply_update (CreateNewChat cid) s = createNewChat_update cid s"
| "apply_update (TypingReveal partialMessage) s = typing_reveal partialMessage s"
| "apply_update (TypingComplete mid fullMessage) s = typing_complete mid fullMessage s"
| "apply_update (SendRegister cid) s = sendMessage_register cid s"
| "apply_update (SendOptimistic cid clk text) s =
     sendMessage_optimistic cid (userMessage clk cid text) (thinkingMessage clk cid) s"
| "apply_update (SendRekey cid newChat) s = sendMessage_rekey cid newChat s"
| "apply_update (SendReply cid aiResponse) s = sendMessage_reply cid aiResponse s"
| "apply_update (SendAborted cid) s = sendMessage_aborted cid s"
| "apply_update (SendFailed cid e) s = sendMessage_failed cid e s"
| "apply_update (CancelMessage isInterruption newContent cid) s =
     fst (cancelMessage_update isInterruption newContent cid s)"
| "apply_update (ExportFail e) s = exportChat_fail e s"
| "apply_update ClearError s = clearError s"
| "apply_update (SaveDraft cid text) s = saveDraft_update cid text s"
| "apply_update DeleteBegin s = deleteChat_begin s"
| "apply_update (DeleteOk cid) s = deleteChat_ok cid s"
| "apply_update (DeleteFail e) s = deleteChat_fail e s"

text \<open>
  When an update cannot add a second in-flight message to a chat: the optimistic append of
  a send goes to a chat with no in-flight message, a reply is appended to a chat with no
  message in status typing, a loaded page holds settled messages only. The other updates
  add none.
\<close>

fun admissible :: "Update \<Rightarrow> ChatState \<Rightarrow> bool" where
  "admissible (SendOptimistic cid clk text) s = (in_flight_count (msgs_of s cid) = 0)"
| "admissible (SendReply cid aiResponse) s =
     (filter (\<lambda>msg. status msg = Some Typing) (msgs_of s cid) = [])"
| "admissible (LoadMessagesOk cid cursor response) s =
     (in_flight_count (messages_page response) = 0)"
| "admissible u s = True"

fun run :: "Update list \<Rightarrow> ChatState \<Rightarrow> ChatState" where
  "run [] s = s"
| "run (u # us) s = run us (apply_update u s)"

section \<open>Example sessions\<close>

definition chat_001 :: jsstring where
  "chat_001 = js ''chat-001''"

definition clock_at :: "nat \<Rightarrow> SendClock" where
  "clock_at t = \<lparr> now_chat = t, now_user = t, iso_user = js ''2025-01-01T00:00:00.000Z'',
                 now_thinking = t, iso_thinking = js ''2025-01-01T00:00:00.000Z'' \<rparr>"

definition reply_hello :: Message where
  "reply_hello = \<lparr> id_msg = js ''msg-abc'', chatId = chat_001, role = Assistant,
                   content = js ''Hello'', timestamp = js ''2025-01-01T00:00:03.000Z'',
                   status = Some Sent, wasInterrupted = None \<rparr>"

definition chat_created :: Chat where
  "chat_created = \<lparr> id_chat = js ''chat-xyz'', userId = js ''user-001'', title = js ''hi'',
                    lastMessage = Some (js ''hi''), lastMessageAt = js ''2025-01-01T00:00:00.500Z'',
                    createdAt = js ''2025-01-01T00:00:00.500Z'', messageCount = 1 \<rparr>"

definition backend_replies :: Backend where
  "backend_replies = \<lparr> createChat_result = Inr chat_created, sendMessage_result = Inr reply_hello \<rparr>"

definition backend_fails :: Backend where
  "backend_fails = \<lparr> createChat_result = Inr chat_created,
                      sendMessage_result = Inl (ErrorObj (js ''Error'') (js ''Network down'')) \<rparr>"

definition empty_page :: MessagesPage where
  "empty_page = \<lparr> messages_page = [], hasMore = False, nextCursor_page = None \<rparr>"

text \<open>The chat \<open>chat-001\<close> selected, its (empty) history loaded.\<close>

definition session_selected :: Session where
  "session_selected = selectChat chat_001 (Inr empty_page) initialSession"

text \<open>\<open>hi\<close> sent on it and answered: the reply is there, no character revealed yet.\<close>

definition session_typing :: Session where
  "session_typing =
     snd (sendMessage (clock_at 1000) backend_replies (Some ()) (js ''hi'') session_selected)"

text \<open>The session a send leaves at its first \<open>await\<close>, a user being signed in.\<close>

definition session_after_begin :: "SendClock \<Rightarrow> jsstring \<Rightarrow> Session \<Rightarrow> Session" where
  "session_after_begin clk text \<sigma> =
     (case sendMessage_begin clk (Some ()) text \<sigma> of None \<Rightarrow> \<sigma> | Some (cid, \<sigma>') \<Rightarrow> \<sigma>')"

definition old_question :: Message where
  "old_question = \<lparr> id_msg = js ''msg-chat-001-28'', chatId = chat_001, role = User,
                    content = js ''What causes headaches?'', timestamp = js ''2024-12-31T23:50:00.000Z'',
                    status = Some Sent, wasInterrupted = None \<rparr>"

definition old_answer :: Message where
  "old_answer = \<lparr> id_msg = js ''msg-chat-001-29'', chatId = chat_001, role = Assistant,
                  content = js ''This is a demo.'', timestamp = js ''2024-12-31T23:55:00.000Z'',
                  status = Some Sent, wasInterrupted = None \<rparr>"

definition newest_page :: MessagesPage where
  "newest_page = \<lparr> messages_page = [old_answer, old_question], hasMore = True,
                   nextCursor_page = Some (js ''2'') \<rparr>"

definition older_page :: MessagesPage where
  "older_page = \<lparr> messages_page = [old_answer\<lparr>id_msg := js ''msg-chat-001-27''\<rparr>], hasMore = False,
                  nextCursor_page = None \<rparr>"

text \<open>\<open>hi\<close> sent on \<open>chat-001\<close>, the backend not having answered yet.\<close>

definition session_thinking :: Session where
  "session_thinking = session_after_begin (clock_at 1000) (js ''hi'') session_selected"

definition reply_again :: Message where
  "reply_again = \<lparr> id_msg = js ''msg-def'', chatId = chat_001, role = Assistant,
                   content = js ''Hello again'', timestamp = js ''2025-01-01T00:00:06.000Z'',
                   status = Some Sent, wasInterrupted = None \<rparr>"

definition backend_replies_again :: Backend where
  "backend_replies_again =
     \<lparr> createChat_result = Inr chat_created, sendMessage_result = Inr reply_again \<rparr>"

section \<open>Facts shared by the proofs\<close>

lemmas example_defs = chat_001_def clock_at_def reply_hello_def chat_created_def
  backend_replies_def backend_fails_def empty_page_def session_selected_def session_typing_def
  session_after_begin_def old_question_def old_answer_def newest_page_def older_page_def
  session_thinking_def reply_again_def backend_replies_again_def

lemmas operation_defs = selectChat_def selectChat_update_def loadMessages_def loadMessages_ok_def
  loadMessages_begin_def loadMessages_fail_def initialSession_def initialState_def
  abort_and_release_def clearTypingAnimation_def sendMessage_def sendMessage_begin_def
  sendMessage_register_def sendMessage_optimistic_def userMessage_def thinkingMessage_def
  sendMessage_rekey_def sendMessage_reply_def sendMessage_request_def sendMessage_arrived_def
  sendMessage_catch_def sendMessage_aborted_def sendMessage_failed_def startTypingAnimation_def
  cancelMessage_def cancelMessage_update_def cancel_typing_def cancel_thinking_def
  truthy_def or_empty_def msgs_of_def startsWith_def js_def Let_def error_text_def

lemma state_abort_and_release: "state (abort_and_release \<sigma>) = state \<sigma>"
  by (simp add: abort_and_release_def split: option.splits)

lemma state_clearTypingAnimation: "state (clearTypingAnimation \<sigma>) = state \<sigma>"
  by (simp add: clearTypingAnimation_def)

section \<open>Cancelling\<close>

text \<open>
  What \<open>cancelMessage\<close> does to the last message of the active chat: while it is the
  thinking placeholder; while it is being typed and some text is revealed; and when it is
  neither (only \<open>isSendingMessage\<close> and \<open>typingMessage\<close> are reset, nothing is notified).
\<close>

lemma cancelMessage_while_thinking:
  assumes "truthy (currentChatId (state \<sigma>))"
    and "msgs_of (state \<sigma>) (or_empty (currentChatId (state \<sigma>))) \<noteq> []"
    and "status (last (msgs_of (state \<sigma>) (or_empty (currentChatId (state \<sigma>))))) = Some Thinking"
  shows "last (msgs_of (state (fst (cancelMessage isInterruption newContent \<sigma>)))
                (or_empty (currentChatId (state \<sigma>))))
           = (last (msgs_of (state \<sigma>) (or_empty (currentChatId (state \<sigma>)))))
               \<lparr>content := [], status := Some Interrupted, wasInterrupted := Some True,
                role := Assistant\<rparr>"
  using assms
  by (simp add: cancelMessage_def cancelMessage_update_def cancel_thinking_def Let_def
      state_abort_and_release state_clearTypingAnimation msgs_of_def last_map
      split: option.splits)

lemma cancelMessage_while_revealing:
  assumes "truthy (currentChatId (state \<sigma>))"
    and "msgs_of (state \<sigma>) (or_empty (currentChatId (state \<sigma>))) \<noteq> []"
    and "status (last (msgs_of (state \<sigma>) (or_empty (currentChatId (state \<sigma>))))) = Some Typing"
    and "typingMessage (state \<sigma>) = Some revealed" and "revealed \<noteq> []"
  shows "last (msgs_of (state (fst (cancelMessage isInterruption newContent \<sigma>)))
                (or_empty (currentChatId (state \<sigma>))))
           = (last (msgs_of (state \<sigma>) (or_empty (currentChatId (state \<sigma>)))))
               \<lparr>content := revealed @ [em_dash], status := Some Interrupted,
                wasInterrupted := Some True\<rparr>"
  using assms
  by (simp add: cancelMessage_def cancelMessage_update_def cancel_typing_def Let_def
      state_abort_and_release state_clearTypingAnimation msgs_of_def last_map truthy_def
      or_empty_def split: option.splits)

lemma cancelMessage_while_idle:
  assumes "truthy (currentChatId (state \<sigma>))"
    and "msgs_of (state \<sigma>) (or_empty (currentChatId (state \<sigma>))) = []
         \<or> (status (last (msgs_of (state \<sigma>) (or_empty (currentChatId (state \<sigma>))))) \<noteq> Some Typing
            \<and> status (last (msgs_of (state \<sigma>) (or_empty (currentChatId (state \<sigma>))))) \<noteq> Some Thinking)"
  shows "state (fst (cancelMessage isInterruption newContent \<sigma>))
           = (state \<sigma>)\<lparr>isSendingMessage := False, typingMessage := None\<rparr>
       \<and> snd (cancelMessage isInterruption newContent \<sigma>) = []"
  using assms
  by (auto simp add: cancelMessage_def cancelMessage_update_def Let_def
      state_abort_and_release state_clearTypingAnimation)

text \<open>
  C10. When \<open>cancelMessage\<close> is called while the last message of the active chat has status
  typing and the revealed partial text \<open>typingMessage\<close> is still \<open>null\<close>, neither the typing
  nor the thinking branch runs: the state changes only in that \<open>isSendingMessage\<close> becomes
  false and \<open>typingMessage\<close> stays \<open>null\<close>, no backend call is made, and the last message
  keeps status typing (so it is not marked interrupted and \<open>wasInterrupted\<close> is not set).
\<close>

theorem cancelMessage_typing_unrevealed:
  assumes "truthy (currentChatId (state \<sigma>))"
    and "msgs_of (state \<sigma>) (or_empty (currentChatId (state \<sigma>))) \<noteq> []"
    and "status (last (msgs_of (state \<sigma>) (or_empty (currentChatId (state \<sigma>))))) = Some Typing"
    and "typingMessage (state \<sigma>) = None"
  shows "state (fst (cancelMessage isInterruption newContent \<sigma>))
           = (state \<sigma>)\<lparr>isSendingMessage := False, typingMessage := None\<rparr>
       \<and> snd (cancelMessage isInterruption newContent \<sigma>) = []
       \<and> msgs_of (state (fst (cancelMessage isInterruption newContent \<sigma>)))
             (or_empty (currentChatId (state \<sigma>)))
           = msgs_of (state \<sigma>) (or_empty (currentChatId (state \<sigma>)))
       \<and> status (last (msgs_of (state (fst (cancelMessage isInterruption newContent \<sigma>)))
                    (or_empty (currentChatId (state \<sigma>))))) = Some Typing"
  using assms
  by (simp add: cancelMessage_def cancelMessage_update_def Let_def state_abort_and_release
      state_clearTypingAnimation truthy_def msgs_of_def)

theorem cancelMessage_typing_unrevealed_witness:
  "truthy (currentChatId (state session_typing))
   \<and> msgs_of (state session_typing) chat_001 \<noteq> []
   \<and> status (last (msgs_of (state session_typing) chat_001)) = Some Typing
   \<and> typingMessage (state session_typing) = None
   \<and> state (fst (cancelMessage True None session_typing))
       = (state session_typing)\<lparr>isSendingMessage := False, typingMessage := None\<rparr>
   \<and> snd (cancelMessage True None session_typing) = []
   \<and> wasInterrupted (last (msgs_of (state (fst (cancelMessage True None session_typing))) chat_001))
       = None"
proof -
  have cur: "currentChatId (state session_typing) = Some chat_001"
    by (simp add: example_defs operation_defs)
  have h1: "truthy (currentChatId (state session_typing))"
    by (simp add: example_defs operation_defs)
  have ms: "msgs_of (state session_typing) chat_001 =
      [userMessage (clock_at 1000) chat_001 (js ''hi''), reply_hello\<lparr>status := Some Typing\<rparr>]"
    by (simp add: example_defs operation_defs)
  have oe: "or_empty (currentChatId (state session_typing)) = chat_001"
    by (simp add: cur or_empty_def)
  have h2: "msgs_of (state session_typing) (or_empty (currentChatId (state session_typing))) \<noteq> []"
    by (simp add: oe ms)
  have h3: "status (last (msgs_of (state session_typing)
              (or_empty (currentChatId (state session_typing))))) = Some Typing"
    by (simp add: oe ms)
  have h4: "typingMessage (state session_typing) = None"
    by (simp add: example_defs operation_defs)
  have wi: "wasInterrupted (last (msgs_of (state session_typing) chat_001)) = None"
    by (simp add: ms reply_hello_def)
  from cancelMessage_typing_unrevealed [OF h1 h2 h3 h4, of True None] h1 h2 h3 h4 wi
  show ?thesis by (simp add: oe msgs_of_def)
qed

text \<open>
  C3. The session \<open>session_typing\<close>: \<open>hi\<close> was sent on \<open>chat-001\<close>, the reply \<open>Hello\<close> has
  arrived and stands last in the list with status typing, and the first tick of the
  animation has not fired. \<open>cancelMessage(false)\<close> there leaves that message in status
  typing, with its full content and without \<open>wasInterrupted\<close>, and notifies nobody.
\<close>

theorem cancelMessage_before_first_tick:
  "status (last (msgs_of (state session_typing) chat_001)) = Some Typing
   \<and> msgs_of (state (fst (cancelMessage False None session_typing))) chat_001
       = [userMessage (clock_at 1000) chat_001 (js ''hi''), reply_hello\<lparr>status := Some Typing\<rparr>]
   \<and> status (last (msgs_of (state (fst (cancelMessage False None session_typing))) chat_001))
       \<noteq> Some Interrupted
   \<and> snd (cancelMessage False None session_typing) = []"
  by (simp add: example_defs operation_defs)

section \<open>A delete that fails\<close>

text \<open>
  When the backend rejects, \<open>deleteChat\<close> rethrows and the state differs from the one
  before the call only in \<open>isDeletingChat = false\<close> and the error.
\<close>

lemma deleteChat_rejected:
  "fst (deleteChat now cid (Inl e) \<sigma>) = Some e
   \<and> state (snd (deleteChat now cid (Inl e) \<sigma>))
       = (state \<sigma>)\<lparr>isDeletingChat := False,
                      error := Some (error_text e (js ''Failed to delete chat''))\<rparr>"
  by (simp add: deleteChat_def deleteChat_begin_def deleteChat_fail_def Let_def
      state_abort_and_release state_clearTypingAnimation)

text \<open>
  C8. \<open>deleteChat('chat-001')\<close> on the session with \<open>chat-001\<close> selected, the backend
  resolving with \<open>{ success: false }\<close>: the promise resolves, \<open>isDeletingChat\<close> is left
  true and no error is set.
\<close>

theorem deleteChat_unsuccessful:
  "fst (deleteChat 2000 chat_001 (Inr \<lparr>success = False, remainingChats = []\<rparr>) session_selected) = None
   \<and> isDeletingChat (state (snd (deleteChat 2000 chat_001
         (Inr \<lparr>success = False, remainingChats = []\<rparr>) session_selected))) = True
   \<and> error (state (snd (deleteChat 2000 chat_001
         (Inr \<lparr>success = False, remainingChats = []\<rparr>) session_selected))) = None"
  by (simp add: deleteChat_def deleteChat_begin_def example_defs operation_defs)

section \<open>A send that fails\<close>

lemma trim_hello: "trim (js ''hello'') = js ''hello''"
  by (simp add: trim_def js_def js_whitespace_def)

text \<open>
  \<open>sendMessage\<close> catches whatever the backend rejects with, so its promise resolves; the
  one exception is a rejection with \<open>null\<close> or \<open>undefined\<close>.
\<close>

lemma sendMessage_resolves:
  "sendMessage_result be \<noteq> Inl Nullish \<Longrightarrow> createChat_result be \<noteq> Inl Nullish \<Longrightarrow>
   fst (sendMessage clk be user text \<sigma>) = None"
  by (auto simp: sendMessage_def sendMessage_request_def sendMessage_catch_def Let_def
      split: option.splits sum.splits thrown.splits prod.splits)

text \<open>
  C9. \<open>hello\<close> typed and sent through \<open>handleSend\<close> with \<open>chat-001\<close> selected, the backend
  rejecting the send with \<open>Error('Network down')\<close>: the error is surfaced and the thinking
  placeholder is gone, but the input is left empty and the chat's draft is the empty string.
\<close>

theorem handleSend_failed_send:
  "fst (handleSend (clock_at 1000) backend_fails (Some ()) (js ''hello'') session_selected) = []
   \<and> error (state (snd (handleSend (clock_at 1000) backend_fails (Some ()) (js ''hello'')
         session_selected))) = Some (js ''Network down'')
   \<and> msgs_of (state (snd (handleSend (clock_at 1000) backend_fails (Some ()) (js ''hello'')
         session_selected))) chat_001 = [userMessage (clock_at 1000) chat_001 (js ''hello'')]
   \<and> getDraft chat_001 (snd (handleSend (clock_at 1000) backend_fails (Some ()) (js ''hello'')
         session_selected)) = Str []"
  unfolding handleSend_def trim_hello
  by (simp add: getDraft_def read_draft_def example_defs operation_defs)

text \<open>
  On a fresh session the chat is created and re-keyed to \<open>chat-xyz\<close> before the send is
  rejected; the \<open>catch\<close> block then filters the list under the temporary id, and the
  placeholder stays under \<open>chat-xyz\<close>.
\<close>

lemma sendMessage_failed_after_rekey:
  "msgs_of (state (snd (sendMessage (clock_at 1000) backend_fails (Some ()) (js ''hello'')
       initialSession))) (js ''chat-xyz'')
     = [userMessage (clock_at 1000) (js ''chat-xyz'') (js ''hello''),
        thinkingMessage (clock_at 1000) (js ''chat-xyz'')]"
  by (simp add: example_defs operation_defs toString_nat.simps)

section \<open>The first send of a fresh session\<close>

text \<open>
  C2. With \<open>currentChatId = null\<close> and a user signed in, the synchronous part of
  \<open>sendMessage(content)\<close>, which ends before any backend call has resolved, makes the
  temporary chat \<open>new-chat-<now>\<close> the current one and leaves under it exactly two messages:
  the user message with that content and status sent, then the assistant placeholder with
  empty content and status thinking. No other chat's list and no entry of the chat
  directory changes, so exactly one chat is created.
\<close>

theorem sendMessage_fresh_session:
  assumes "currentChatId (state \<sigma>) = None" and "user \<noteq> None"
  shows "case sendMessage_begin clk user text \<sigma> of
           None \<Rightarrow> False
         | Some (cid, \<sigma>') \<Rightarrow>
             cid = js ''new-chat-'' @ toString_nat (now_chat clk)
           \<and> startsWith cid (js ''new-chat-'')
           \<and> currentChatId (state \<sigma>') = Some cid
           \<and> messages (state \<sigma>') cid = Some [userMessage clk cid text, thinkingMessage clk cid]
           \<and> role (userMessage clk cid text) = User
           \<and> content (userMessage clk cid text) = text
           \<and> status (userMessage clk cid text) = Some Sent
           \<and> role (thinkingMessage clk cid) = Assistant
           \<and> content (thinkingMessage clk cid) = []
           \<and> status (thinkingMessage clk cid) = Some Thinking
           \<and> (\<forall>c. c \<noteq> cid \<longrightarrow> messages (state \<sigma>') c = messages (state \<sigma>) c)
           \<and> chats (state \<sigma>') = chats (state \<sigma>)"
  using assms
  by (simp add: sendMessage_begin_def Let_def truthy_def sendMessage_register_def
      sendMessage_optimistic_def msgs_of_def userMessage_def thinkingMessage_def
      startsWith_def js_def)

theorem sendMessage_fresh_session_witness:
  "currentChatId (state initialSession) = None \<and> Some () \<noteq> None
   \<and> (case sendMessage_begin (clock_at 1700) (Some ()) (js ''What are symptoms of flu?'') initialSession of
         None \<Rightarrow> False
       | Some (cid, \<sigma>') \<Rightarrow>
           cid = js ''new-chat-1700''
         \<and> messages (state \<sigma>') cid
             = Some [userMessage (clock_at 1700) cid (js ''What are symptoms of flu?''),
                     thinkingMessage (clock_at 1700) cid]
         \<and> messages (state \<sigma>') chat_001 = None)"
proof -
  have h1: "currentChatId (state initialSession) = None"
    by (simp add: initialSession_def initialState_def)
  have h2: "Some () \<noteq> None" by simp
  have n: "js ''new-chat-'' @ toString_nat (now_chat (clock_at 1700)) = js ''new-chat-1700''"
    by (simp add: clock_at_def js_def toString_nat.simps)
  have d: "chat_001 \<noteq> js ''new-chat-1700''"
    by (simp add: chat_001_def js_def)
  have m: "messages (state initialSession) chat_001 = None"
    by (simp add: initialSession_def initialState_def)
  from sendMessage_fresh_session [OF h1 h2, of "clock_at 1700" "js ''What are symptoms of flu?''"]
  show ?thesis using h1 d m
    by (auto simp: n split: option.splits)
qed

section \<open>Re-keying a temporary chat\<close>

text \<open>What the re-keying update does to the two lists, for a new id other than the old.\<close>

lemma sendMessage_rekey_moves:
  assumes "id_chat newChat \<noteq> cid"
  shows "messages (sendMessage_rekey cid newChat prev) cid = None
       \<and> messages (sendMessage_rekey cid newChat prev) (id_chat newChat)
           = Some (map (\<lambda>msg. msg\<lparr>chatId := id_chat newChat\<rparr>) (msgs_of prev cid))
       \<and> currentChatId (sendMessage_rekey cid newChat prev) = Some (id_chat newChat)"
  using assms by (simp add: sendMessage_rekey_def Let_def msgs_of_def)

text \<open>
  C4. Let \<open>sendMessage\<close> have reached its first \<open>await\<close> on the chat \<open>cid\<close> in session
  \<open>\<sigma>1\<close>, let \<open>cid\<close> be temporary (it starts with \<open>new-chat-\<close>) and let the backend answer
  the creation with a chat of another id. Then \<open>sendMessage\<close> goes on to the request from
  \<open>\<sigma>1\<close> changed by the one update \<open>sendMessage_rekey\<close>; in the state of that update no
  list is left under the temporary id and the list under the new id is the one that was
  under the temporary id, in its order, each message with \<open>chatId\<close> set to the new id; and
  when \<open>sendMessage\<close> has run to its end there is still no message under the temporary id,
  and under the new id stand the re-keyed messages, with the placeholder replaced by the
  reply if the backend answered the send.
\<close>

theorem sendMessage_rekeys_temporary_chat:
  assumes started: "sendMessage_begin clk user body \<sigma> = Some (cid, \<sigma>1)"
    and temp: "startsWith cid (js ''new-chat-'')"
    and created: "createChat_result be = Inr newChat"
    and other: "id_chat newChat \<noteq> cid"
  shows "sendMessage clk be user body \<sigma>
           = sendMessage_request (currentChatId (state \<sigma>)) cid (id_chat newChat) be
               (\<sigma>1\<lparr>state := sendMessage_rekey cid newChat (state \<sigma>1)\<rparr>)
       \<and> messages (sendMessage_rekey cid newChat (state \<sigma>1)) cid = None
       \<and> messages (sendMessage_rekey cid newChat (state \<sigma>1)) (id_chat newChat)
           = Some (map (\<lambda>msg. msg\<lparr>chatId := id_chat newChat\<rparr>) (msgs_of (state \<sigma>1) cid))
       \<and> msgs_of (state (snd (sendMessage clk be user body \<sigma>))) cid = []
       \<and> msgs_of (state (snd (sendMessage clk be user body \<sigma>))) (id_chat newChat)
           = (case sendMessage_result be of
                Inl e \<Rightarrow> map (\<lambda>msg. msg\<lparr>chatId := id_chat newChat\<rparr>) (msgs_of (state \<sigma>1) cid)
              | Inr aiResponse \<Rightarrow>
                  filter (\<lambda>msg. status msg \<noteq> Some Thinking)
                    (map (\<lambda>msg. msg\<lparr>chatId := id_chat newChat\<rparr>) (msgs_of (state \<sigma>1) cid))
                  @ [aiResponse\<lparr>chatId := id_chat newChat, status := Some Typing\<rparr>])"
proof -
  let ?new = "id_chat newChat"
  let ?moved = "map (\<lambda>msg. msg\<lparr>chatId := ?new\<rparr>) (msgs_of (state \<sigma>1) cid)"
  let ?\<sigma>r = "\<sigma>1\<lparr>state := sendMessage_rekey cid newChat (state \<sigma>1)\<rparr>"
  let ?captured = "currentChatId (state \<sigma>)"
  note moves = sendMessage_rekey_moves [OF other, of "state \<sigma>1"]
  have link: "sendMessage clk be user body \<sigma> = sendMessage_request ?captured cid ?new be ?\<sigma>r"
    by (simp add: sendMessage_def started temp created Let_def)
  have ctl: "abortControllerRef \<sigma>1 = Some (nextController \<sigma>)"
    and live: "\<not> signal_aborted \<sigma>1 (nextController \<sigma>)"
    and err: "(if truthy ?captured then or_empty ?captured else cid) = cid"
    using started by (auto simp: sendMessage_begin_def Let_def split: if_splits)
  have r_cid: "msgs_of (state ?\<sigma>r) cid = []" and r_new: "msgs_of (state ?\<sigma>r) ?new = ?moved"
    using moves by (simp_all add: msgs_of_def)
  have fin: "msgs_of (state (snd (sendMessage_request ?captured cid ?new be ?\<sigma>r))) cid = []
           \<and> msgs_of (state (snd (sendMessage_request ?captured cid ?new be ?\<sigma>r))) ?new
               = (case sendMessage_result be of
                    Inl e \<Rightarrow> ?moved
                  | Inr aiResponse \<Rightarrow>
                      filter (\<lambda>msg. status msg \<noteq> Some Thinking) ?moved
                      @ [aiResponse\<lparr>chatId := ?new, status := Some Typing\<rparr>])"
  proof (cases "sendMessage_result be")
    case (Inl e)
    have "msgs_of (state (snd (sendMessage_catch ?captured cid e ?\<sigma>r))) cid = []
        \<and> msgs_of (state (snd (sendMessage_catch ?captured cid e ?\<sigma>r))) ?new = ?moved"
      using r_cid r_new other
      by (cases e)
         (simp_all add: sendMessage_catch_def err sendMessage_aborted_def sendMessage_failed_def
            msgs_of_def Let_def)
    with Inl show ?thesis
      by (simp add: sendMessage_request_def Let_def)
  next
    case (Inr aiResponse)
    have "sendMessage_arrived ?new (abortControllerRef ?\<sigma>r) aiResponse ?\<sigma>r
            = startTypingAnimation (content aiResponse) (id_msg aiResponse)
                (?\<sigma>r\<lparr>state := sendMessage_reply ?new aiResponse (state ?\<sigma>r)\<rparr>)"
      using ctl live by (simp add: sendMessage_arrived_def)
    then have "msgs_of (state (sendMessage_arrived ?new (abortControllerRef ?\<sigma>r) aiResponse ?\<sigma>r)) cid = []
        \<and> msgs_of (state (sendMessage_arrived ?new (abortControllerRef ?\<sigma>r) aiResponse ?\<sigma>r)) ?new
            = filter (\<lambda>msg. status msg \<noteq> Some Thinking) ?moved
              @ [aiResponse\<lparr>chatId := ?new, status := Some Typing\<rparr>]"
      using r_cid r_new other
      by (simp add: startTypingAnimation_def clearTypingAnimation_def sendMessage_reply_def
          msgs_of_def Let_def)
    with Inr show ?thesis
      by (simp add: sendMessage_request_def Let_def)
  qed
  from link moves fin show ?thesis by simp
qed

theorem sendMessage_rekeys_temporary_chat_witness:
  "sendMessage_begin (clock_at 1700) (Some ()) (js ''hi'') initialSession
     = Some (js ''new-chat-1700'', session_after_begin (clock_at 1700) (js ''hi'') initialSession)
   \<and> startsWith (js ''new-chat-1700'') (js ''new-chat-'')
   \<and> createChat_result backend_replies = Inr chat_created
   \<and> id_chat chat_created \<noteq> js ''new-chat-1700''
   \<and> msgs_of (state (session_after_begin (clock_at 1700) (js ''hi'') initialSession)) (js ''new-chat-1700'')
       = [userMessage (clock_at 1700) (js ''new-chat-1700'') (js ''hi''),
          thinkingMessage (clock_at 1700) (js ''new-chat-1700'')]
   \<and> messages (sendMessage_rekey (js ''new-chat-1700'') chat_created
         (state (session_after_begin (clock_at 1700) (js ''hi'') initialSession))) (js ''new-chat-1700'')
       = None
   \<and> messages (sendMessage_rekey (js ''new-chat-1700'') chat_created
         (state (session_after_begin (clock_at 1700) (js ''hi'') initialSession))) (js ''chat-xyz'')
       = Some [userMessage (clock_at 1700) (js ''chat-xyz'') (js ''hi''),
               thinkingMessage (clock_at 1700) (js ''chat-xyz'')]
   \<and> msgs_of (state (snd (sendMessage (clock_at 1700) backend_replies (Some ()) (js ''hi'')
         initialSession))) (js ''new-chat-1700'') = []
   \<and> msgs_of (state (snd (sendMessage (clock_at 1700) backend_replies (Some ()) (js ''hi'')
         initialSession))) (js ''chat-xyz'')
       = [userMessage (clock_at 1700) (js ''chat-xyz'') (js ''hi''),
          reply_hello\<lparr>chatId := js ''chat-xyz'', status := Some Typing\<rparr>]"
proof -
  have h1: "sendMessage_begin (clock_at 1700) (Some ()) (js ''hi'') initialSession
     = Some (js ''new-chat-1700'', session_after_begin (clock_at 1700) (js ''hi'') initialSession)"
    by (simp add: example_defs operation_defs toString_nat.simps)
  have h2: "startsWith (js ''new-chat-1700'') (js ''new-chat-'')"
    by (simp add: startsWith_def js_def)
  have h3: "createChat_result backend_replies = Inr chat_created"
    by (simp add: backend_replies_def)
  have h4: "id_chat chat_created \<noteq> js ''new-chat-1700''"
    by (simp add: chat_created_def js_def)
  have i: "id_chat chat_created = js ''chat-xyz''"
    by (simp add: chat_created_def)
  have r: "sendMessage_result backend_replies = Inr reply_hello"
    by (simp add: backend_replies_def)
  have ms: "msgs_of (state (session_after_begin (clock_at 1700) (js ''hi'') initialSession))
        (js ''new-chat-1700'')
       = [userMessage (clock_at 1700) (js ''new-chat-1700'') (js ''hi''),
          thinkingMessage (clock_at 1700) (js ''new-chat-1700'')]"
    by (simp add: example_defs operation_defs toString_nat.simps)
  note T = sendMessage_rekeys_temporary_chat [OF h1 h2 h3 h4, unfolded i r ms]
  note Ta = T [THEN conjunct2, THEN conjunct1]
  note Tb = T [THEN conjunct2, THEN conjunct2, THEN conjunct1]
  note Tc = T [THEN conjunct2, THEN conjunct2, THEN conjunct2, THEN conjunct1]
  note Td = T [THEN conjunct2, THEN conjunct2, THEN conjunct2, THEN conjunct2]
  have b: "messages (sendMessage_rekey (js ''new-chat-1700'') chat_created
         (state (session_after_begin (clock_at 1700) (js ''hi'') initialSession))) (js ''chat-xyz'')
       = Some [userMessage (clock_at 1700) (js ''chat-xyz'') (js ''hi''),
               thinkingMessage (clock_at 1700) (js ''chat-xyz'')]"
    using Tb by (simp add: userMessage_def thinkingMessage_def)
  have d: "msgs_of (state (snd (sendMessage (clock_at 1700) backend_replies (Some ()) (js ''hi'')
         initialSession))) (js ''chat-xyz'')
       = [userMessage (clock_at 1700) (js ''chat-xyz'') (js ''hi''),
          reply_hello\<lparr>chatId := js ''chat-xyz'', status := Some Typing\<rparr>]"
    using Td by (simp add: userMessage_def thinkingMessage_def)
  show ?thesis
    using h1 h2 h3 h4 ms Ta b Tc d by (intro conjI)
qed

section \<open>The reply and its typing animation\<close>

lemma typing_tick_reveals:
  assumes "typingIntervalRef \<sigma> = Some job" and "currentIndex job < length (chars job)"
  shows "typing_tick \<sigma>
           = \<sigma>\<lparr>state := typing_reveal (take (currentIndex job + 1) (chars job)) (state \<sigma>),
                typingIntervalRef := Some (job\<lparr>currentIndex := currentIndex job + 1\<rparr>)\<rparr>"
  using assms by (simp add: typing_tick_def)

lemma typing_ticks:
  assumes "typingIntervalRef \<sigma> = Some job"
    and "currentIndex job + k \<le> length (chars job)" and "0 < k"
  shows "(typing_tick ^^ k) \<sigma>
           = \<sigma>\<lparr>state := typing_reveal (take (currentIndex job + k) (chars job)) (state \<sigma>),
                typingIntervalRef := Some (job\<lparr>currentIndex := currentIndex job + k\<rparr>)\<rparr>"
  using assms
proof (induction k)
  case 0
  then show ?case by simp
next
  case (Suc k)
  show ?case
  proof (cases "k = 0")
    case True
    from Suc.prems have "currentIndex job < length (chars job)" by simp
    from typing_tick_reveals [OF Suc.prems(1) this] True show ?thesis by simp
  next
    case False
    let ?\<sigma>k = "\<sigma>\<lparr>state := typing_reveal (take (currentIndex job + k) (chars job)) (state \<sigma>),
                typingIntervalRef := Some (job\<lparr>currentIndex := currentIndex job + k\<rparr>)\<rparr>"
    from False Suc have ih: "(typing_tick ^^ k) \<sigma> = ?\<sigma>k" by simp
    have ref: "typingIntervalRef ?\<sigma>k = Some (job\<lparr>currentIndex := currentIndex job + k\<rparr>)"
      by simp
    from Suc.prems
    have lt: "currentIndex (job\<lparr>currentIndex := currentIndex job + k\<rparr>)
                < length (chars (job\<lparr>currentIndex := currentIndex job + k\<rparr>))"
      by simp
    have "(typing_tick ^^ Suc k) \<sigma> = typing_tick ?\<sigma>k"
      by (simp add: ih)
    also have "\<dots> = \<sigma>\<lparr>state := typing_reveal (take (currentIndex job + Suc k) (chars job)) (state \<sigma>),
                typingIntervalRef := Some (job\<lparr>currentIndex := currentIndex job + Suc k\<rparr>)\<rparr>"
      by (subst typing_tick_reveals [OF ref lt]) (simp add: typing_reveal_def)
    finally show ?thesis .
  qed
qed

lemma typing_tick_completes:
  assumes "typingIntervalRef \<sigma> = Some job" and "currentIndex job = length (chars job)"
  shows "typing_tick \<sigma>
           = (clearTypingAnimation \<sigma>)\<lparr>state := typing_complete (messageId job) (chars job) (state \<sigma>)\<rparr>"
  using assms by (simp add: typing_tick_def)

lemma typing_run_to_end:
  assumes "typingIntervalRef \<sigma> = Some job" and "currentIndex job = 0"
    and "truthy (currentChatId (state \<sigma>))"
  shows "(typing_tick ^^ (length (chars job) + 1)) \<sigma>
           = \<sigma>\<lparr>typingIntervalRef := None,
                state := typing_complete (messageId job) (chars job) (state \<sigma>)\<rparr>"
proof (cases "chars job = []")
  case True
  with assms have "currentIndex job = length (chars job)" by simp
  from typing_tick_completes [OF assms(1) this] show ?thesis
    using True by (simp add: clearTypingAnimation_def)
next
  case False
  then have pos: "0 < length (chars job)" by simp
  have le: "currentIndex job + length (chars job) \<le> length (chars job)"
    using assms(2) by simp
  let ?\<sigma>n = "\<sigma>\<lparr>state := typing_reveal (take (length (chars job)) (chars job)) (state \<sigma>),
                typingIntervalRef := Some (job\<lparr>currentIndex := length (chars job)\<rparr>)\<rparr>"
  from typing_ticks [OF assms(1) le pos] assms(2)
  have t: "(typing_tick ^^ length (chars job)) \<sigma> = ?\<sigma>n" by simp
  have ref: "typingIntervalRef ?\<sigma>n = Some (job\<lparr>currentIndex := length (chars job)\<rparr>)"
    by simp
  have fin: "currentIndex (job\<lparr>currentIndex := length (chars job)\<rparr>)
               = length (chars (job\<lparr>currentIndex := length (chars job)\<rparr>))"
    by simp
  have "(typing_tick ^^ (length (chars job) + 1)) \<sigma> = typing_tick ?\<sigma>n"
    by (simp add: t)
  also have "\<dots> = \<sigma>\<lparr>typingIntervalRef := None,
                state := typing_complete (messageId job) (chars job) (state \<sigma>)\<rparr>"
    using assms(3)
    by (subst typing_tick_completes [OF ref fin])
       (simp add: clearTypingAnimation_def typing_complete_def typing_reveal_def msgs_of_def Let_def)
  finally show ?thesis .
qed

text \<open>
  C7. When the response of a send that was not cancelled arrives for the active chat, the
  thinking placeholder is filtered out of the chat's list and the assistant's response is
  appended with status typing and its full content. After \<open>k\<close> ticks of the animation
  (\<open>0 < k \<le>\<close> the length of the response) \<open>typingMessage\<close> is the first \<open>k\<close> characters of
  the response and the list is as it was. The tick after the last character clears the
  interval, so the animation stops; it sets the status of that message to sent with the
  full response as content, and \<open>typingMessage\<close> to \<open>null\<close>.
\<close>

theorem reply_typed_out:
  assumes live: "\<not> (case controller of None \<Rightarrow> False | Some c \<Rightarrow> signal_aborted \<sigma> c)"
    and cur: "currentChatId (state \<sigma>) = Some actualChatId" and ne: "actualChatId \<noteq> []"
    and asst: "role aiResponse = Assistant"
    and k: "0 < k" "k \<le> length (content aiResponse)"
  shows "let arrived = sendMessage_arrived actualChatId controller aiResponse \<sigma>;
             typing = aiResponse\<lparr>chatId := actualChatId, status := Some Typing\<rparr>;
             revealed = (typing_tick ^^ k) arrived;
             done = (typing_tick ^^ (length (content aiResponse) + 1)) arrived
         in msgs_of (state arrived) actualChatId
              = filter (\<lambda>msg. status msg \<noteq> Some Thinking) (msgs_of (state \<sigma>) actualChatId) @ [typing]
          \<and> role typing = Assistant \<and> content typing = content aiResponse
          \<and> typingMessage (state revealed) = Some (take k (content aiResponse))
          \<and> msgs_of (state revealed) actualChatId = msgs_of (state arrived) actualChatId
          \<and> typingIntervalRef done = None
          \<and> typing_tick done = done
          \<and> typingMessage (state done) = None
          \<and> msgs_of (state done) actualChatId
               = map (\<lambda>msg. if id_msg msg = id_msg aiResponse
                           then msg\<lparr>content := content aiResponse, status := Some Sent\<rparr> else msg)
                     (msgs_of (state arrived) actualChatId)
          \<and> last (msgs_of (state done) actualChatId) = typing\<lparr>status := Some Sent\<rparr>"
proof -
  let ?job = "\<lparr>chars = content aiResponse, messageId = id_msg aiResponse, currentIndex = 0\<rparr>"
  let ?arrived = "sendMessage_arrived actualChatId controller aiResponse \<sigma>"
  let ?typing = "aiResponse\<lparr>chatId := actualChatId, status := Some Typing\<rparr>"
  have arr: "?arrived = \<sigma>\<lparr>state := sendMessage_reply actualChatId aiResponse (state \<sigma>),
                            typingIntervalRef := Some ?job\<rparr>"
    using live
    by (simp add: sendMessage_arrived_def startTypingAnimation_def clearTypingAnimation_def)
  have ref: "typingIntervalRef ?arrived = Some ?job"
    by (simp add: arr)
  have cur': "currentChatId (state ?arrived) = Some actualChatId"
    using cur by (simp add: arr sendMessage_reply_def Let_def)
  have tr: "truthy (currentChatId (state ?arrived))"
    using ne by (simp add: cur' truthy_def)
  have ms: "msgs_of (state ?arrived) actualChatId
              = filter (\<lambda>msg. status msg \<noteq> Some Thinking) (msgs_of (state \<sigma>) actualChatId) @ [?typing]"
    by (simp add: arr sendMessage_reply_def Let_def msgs_of_def)
  have le: "currentIndex ?job + k \<le> length (chars ?job)"
    using k by simp
  have rev: "(typing_tick ^^ k) ?arrived
               = ?arrived\<lparr>state := typing_reveal (take k (content aiResponse)) (state ?arrived),
                          typingIntervalRef := Some (?job\<lparr>currentIndex := k\<rparr>)\<rparr>"
    using typing_ticks [OF ref le k(1)] by simp
  have fin: "(typing_tick ^^ (length (content aiResponse) + 1)) ?arrived
               = ?arrived\<lparr>typingIntervalRef := None,
                          state := typing_complete (id_msg aiResponse) (content aiResponse) (state ?arrived)\<rparr>"
    using typing_run_to_end [OF ref _ tr] by simp
  have c1: "typingMessage (state ((typing_tick ^^ k) ?arrived)) = Some (take k (content aiResponse))"
    by (simp add: rev typing_reveal_def)
  have c2: "msgs_of (state ((typing_tick ^^ k) ?arrived)) actualChatId
              = msgs_of (state ?arrived) actualChatId"
    by (simp add: rev typing_reveal_def msgs_of_def)
  have c3: "typingIntervalRef ((typing_tick ^^ (length (content aiResponse) + 1)) ?arrived) = None"
    by (simp only: fin) simp
  have c4: "typing_tick ((typing_tick ^^ (length (content aiResponse) + 1)) ?arrived)
              = (typing_tick ^^ (length (content aiResponse) + 1)) ?arrived"
    using c3 by (simp add: typing_tick_def)
  have c5: "typingMessage (state ((typing_tick ^^ (length (content aiResponse) + 1)) ?arrived)) = None"
    using tr by (simp only: fin) (simp add: typing_complete_def Let_def)
  have c6: "msgs_of (state ((typing_tick ^^ (length (content aiResponse) + 1)) ?arrived)) actualChatId
              = map (\<lambda>msg. if id_msg msg = id_msg aiResponse
                           then msg\<lparr>content := content aiResponse, status := Some Sent\<rparr> else msg)
                    (msgs_of (state ?arrived) actualChatId)"
    using tr by (simp only: fin) (simp add: typing_complete_def Let_def cur' or_empty_def msgs_of_def)
  have c7: "last (msgs_of (state ((typing_tick ^^ (length (content aiResponse) + 1)) ?arrived))
              actualChatId) = ?typing\<lparr>status := Some Sent\<rparr>"
    by (simp only: c6 ms) simp
  show ?thesis
    unfolding Let_def using ms asst c1 c2 c3 c4 c5 c6 c7 by simp
qed

theorem reply_typed_out_witness:
  "\<not> signal_aborted session_thinking 0
   \<and> currentChatId (state session_thinking) = Some chat_001 \<and> chat_001 \<noteq> []
   \<and> role reply_hello = Assistant \<and> (0::nat) < 3 \<and> 3 \<le> length (content reply_hello)
   \<and> msgs_of (state session_thinking) chat_001
        = [userMessage (clock_at 1000) chat_001 (js ''hi''), thinkingMessage (clock_at 1000) chat_001]
   \<and> msgs_of (state (sendMessage_arrived chat_001 (Some 0) reply_hello session_thinking)) chat_001
        = [userMessage (clock_at 1000) chat_001 (js ''hi''), reply_hello\<lparr>status := Some Typing\<rparr>]
   \<and> typingMessage (state ((typing_tick ^^ 3)
          (sendMessage_arrived chat_001 (Some 0) reply_hello session_thinking))) = Some (js ''Hel'')
   \<and> msgs_of (state ((typing_tick ^^ 6)
          (sendMessage_arrived chat_001 (Some 0) reply_hello session_thinking))) chat_001
        = [userMessage (clock_at 1000) chat_001 (js ''hi''), reply_hello]
   \<and> typingMessage (state ((typing_tick ^^ 6)
          (sendMessage_arrived chat_001 (Some 0) reply_hello session_thinking))) = None"
proof -
  have h1: "\<not> (case Some 0 of None \<Rightarrow> False | Some c \<Rightarrow> signal_aborted session_thinking c)"
    by (simp add: session_thinking_def example_defs operation_defs)
  have h2: "currentChatId (state session_thinking) = Some chat_001"
    by (simp add: session_thinking_def example_defs operation_defs)
  have h3: "chat_001 \<noteq> []" by (simp add: chat_001_def js_def)
  have h4: "role reply_hello = Assistant" by (simp add: reply_hello_def)
  have h5: "(0::nat) < 3" by simp
  have h6: "3 \<le> length (content reply_hello)" by (simp add: reply_hello_def js_def)
  have ms: "msgs_of (state session_thinking) chat_001
        = [userMessage (clock_at 1000) chat_001 (js ''hi''), thinkingMessage (clock_at 1000) chat_001]"
    by (simp add: session_thinking_def example_defs operation_defs)
  have n: "length (content reply_hello) + 1 = 6" by (simp add: reply_hello_def js_def)
  have t: "take 3 (content reply_hello) = js ''Hel''" by (simp add: reply_hello_def js_def)
  have i: "id_msg (userMessage (clock_at 1000) chat_001 (js ''hi'')) \<noteq> id_msg reply_hello"
    by (simp add: userMessage_def reply_hello_def clock_at_def js_def toString_nat.simps)
  have r: "reply_hello\<lparr>chatId := chat_001\<rparr> = reply_hello" "status reply_hello = Some Sent"
    "reply_hello\<lparr>content := content reply_hello\<rparr> = reply_hello"
    by (simp_all add: reply_hello_def)
  have th: "status (thinkingMessage (clock_at 1000) chat_001) = Some Thinking"
    "status (userMessage (clock_at 1000) chat_001 (js ''hi'')) = Some Sent"
    by (simp_all add: thinkingMessage_def userMessage_def)
  note T = reply_typed_out [OF h1 h2 h3 h4 h5 h6, unfolded Let_def n t ms]
  from T have a: "msgs_of (state (sendMessage_arrived chat_001 (Some 0) reply_hello session_thinking))
      chat_001 = [userMessage (clock_at 1000) chat_001 (js ''hi''), reply_hello\<lparr>status := Some Typing\<rparr>]"
    by (simp add: r th)
  from T have b: "typingMessage (state ((typing_tick ^^ 3)
          (sendMessage_arrived chat_001 (Some 0) reply_hello session_thinking))) = Some (js ''Hel'')"
    by blast
  from T have c: "msgs_of (state ((typing_tick ^^ 6)
          (sendMessage_arrived chat_001 (Some 0) reply_hello session_thinking))) chat_001
        = map (\<lambda>msg. if id_msg msg = id_msg reply_hello
                     then msg\<lparr>content := content reply_hello, status := Some Sent\<rparr> else msg)
            (msgs_of (state (sendMessage_arrived chat_001 (Some 0) reply_hello session_thinking))
               chat_001)"
    by blast
  have c': "msgs_of (state ((typing_tick ^^ 6)
          (sendMessage_arrived chat_001 (Some 0) reply_hello session_thinking))) chat_001
        = [userMessage (clock_at 1000) chat_001 (js ''hi''), reply_hello]"
    using i by (simp add: c a) (simp add: reply_hello_def)
  from T have d: "typingMessage (state ((typing_tick ^^ 6)
          (sendMessage_arrived chat_001 (Some 0) reply_hello session_thinking))) = None"
    by blast
  from h1 have h1': "\<not> signal_aborted session_thinking 0" by simp
  show ?thesis
    using h1' h2 h3 h4 h5 h6 ms a b c' d by blast
qed

section \<open>Drafts\<close>








section \<open>Pagination\<close>

text \<open>
  C6. After \<open>loadMessages(id)\<close> with no cursor and then \<open>loadMessages(id, cursor)\<close> with a
  cursor, both answered by the backend, the list stored for \<open>id\<close> is the first page followed
  by the second, so its length is the sum of the two pages' lengths, and the flag of \<open>id\<close>
  in \<open>hasMoreMessages\<close> is the second response's \<open>hasMore\<close>.
\<close>

theorem pagination_accumulates:
  assumes "truthy cursor"
  shows "msgs_of (loadMessages cid cursor (Inr page2) (loadMessages cid None (Inr page1) prev)) cid
           = messages_page page1 @ messages_page page2
       \<and> length (msgs_of (loadMessages cid cursor (Inr page2)
                   (loadMessages cid None (Inr page1) prev)) cid)
           = length (messages_page page1) + length (messages_page page2)
       \<and> hasMoreMessages (loadMessages cid cursor (Inr page2)
            (loadMessages cid None (Inr page1) prev)) cid = Some (hasMore page2)"
  using assms
  by (simp add: loadMessages_def loadMessages_ok_def loadMessages_begin_def Let_def msgs_of_def
      truthy_def)

theorem pagination_accumulates_witness:
  "truthy (Some (js ''2''))
   \<and> msgs_of (loadMessages chat_001 (Some (js ''2'')) (Inr older_page)
        (loadMessages chat_001 None (Inr newest_page) (state session_selected))) chat_001
       = [old_answer, old_question, old_answer\<lparr>id_msg := js ''msg-chat-001-27''\<rparr>]
   \<and> length (msgs_of (loadMessages chat_001 (Some (js ''2'')) (Inr older_page)
        (loadMessages chat_001 None (Inr newest_page) (state session_selected))) chat_001) = 3
   \<and> hasMoreMessages (loadMessages chat_001 (Some (js ''2'')) (Inr older_page)
        (loadMessages chat_001 None (Inr newest_page) (state session_selected))) chat_001 = Some False"
proof -
  have h: "truthy (Some (js ''2''))" by (simp add: truthy_def js_def)
  from pagination_accumulates [OF h, of chat_001 older_page newest_page "state session_selected"] h
  show ?thesis by (simp add: newest_page_def older_page_def)
qed

section \<open>A single in-flight message per chat\<close>

lemma trim_and: "trim (js ''and?'') = js ''and?''"
  by (simp add: trim_def js_def js_whitespace_def)

text \<open>
  C1. In \<open>session_typing\<close> the reply to \<open>hi\<close> stands last in the list of \<open>chat-001\<close> with
  status typing, a send is running and no character is revealed yet. The input component's
  \<open>handleSend\<close> with \<open>and?\<close> there first calls \<open>cancelMessage(true)\<close>, which changes no
  message, and then sends: once the second reply has arrived the list holds the first reply
  and the second reply both in status typing.
\<close>

theorem handleSend_second_turn_in_flight:
  "isSendingMessage (state session_typing)
   \<and> in_flight_count (msgs_of (state session_typing) chat_001) = 1
   \<and> map status (msgs_of (state (snd (handleSend (clock_at 2000) backend_replies_again (Some ())
         (js ''and?'') session_typing))) chat_001)
       = [Some Sent, Some Typing, Some Sent, Some Typing]
   \<and> in_flight_count (msgs_of (state (snd (handleSend (clock_at 2000) backend_replies_again (Some ())
         (js ''and?'') session_typing))) chat_001) = 2"
  unfolding handleSend_def trim_and
  by (simp add: example_defs operation_defs in_flight_count_def in_flight_def)

text \<open>
  \<open>sendMessage\<close> called twice in a row with no cancel in between does the same: it aborts
  the request of the first send and leaves its message as it is.
\<close>

lemma two_sends_two_in_flight:
  "in_flight_count (msgs_of (state (snd (sendMessage (clock_at 2000) backend_replies_again (Some ())
       (js ''and?'') (snd (sendMessage (clock_at 1000) backend_replies (Some ()) (js ''hi'')
       session_selected))))) chat_001) = 2"
  by (simp add: example_defs operation_defs in_flight_count_def in_flight_def)

text \<open>Each operation changes the state only through the updates of \<open>apply_update\<close>.\<close>

lemma selectChat_updates:
  "state (selectChat cid r \<sigma>)
     = run [SelectChat cid, LoadMessagesBegin,
            (case r of Inl e \<Rightarrow> LoadMessagesFail e | Inr p \<Rightarrow> LoadMessagesOk cid None p)]
         (state \<sigma>)"
  by (simp add: selectChat_def loadMessages_def Let_def state_abort_and_release
      state_clearTypingAnimation split: sum.splits)

lemma createNewChat_updates:
  "state (createNewChat now \<sigma>) = run [CreateNewChat (js ''new-chat-'' @ toString_nat now)] (state \<sigma>)"
  by (simp add: createNewChat_def Let_def state_abort_and_release state_clearTypingAnimation)

lemma cancelMessage_updates:
  "state (fst (cancelMessage i n \<sigma>))
     = run (if truthy (currentChatId (state \<sigma>))
            then [CancelMessage i n (or_empty (currentChatId (state \<sigma>)))] else [])
         (state \<sigma>)"
  by (simp add: cancelMessage_def Let_def state_abort_and_release state_clearTypingAnimation)

lemma typing_tick_updates:
  "state (typing_tick \<sigma>)
     = run (case typingIntervalRef \<sigma> of
              None \<Rightarrow> []
            | Some job \<Rightarrow>
                if currentIndex job < length (chars job)
                then [TypingReveal (take (currentIndex job + 1) (chars job))]
                else [TypingComplete (messageId job) (chars job)])
         (state \<sigma>)"
  by (simp add: typing_tick_def clearTypingAnimation_def split: option.splits)

lemma sendMessage_begin_updates:
  "sendMessage_begin clk user body \<sigma> = Some (cid, \<sigma>') \<Longrightarrow>
   state \<sigma>' = run (if truthy (currentChatId (state \<sigma>)) then [SendOptimistic cid clk body]
                   else [SendRegister cid, SendOptimistic cid clk body]) (state \<sigma>)"
  by (auto simp add: sendMessage_begin_def Let_def split: if_splits)

lemma sendMessage_catch_updates:
  "\<exists>us. state (snd (sendMessage_catch captured cid e \<sigma>)) = run us (state \<sigma>)"
proof (cases e)
  case (ErrorObj n m)
  show ?thesis
  proof (cases "n = js ''AbortError''")
    case True
    with ErrorObj show ?thesis
      by (intro exI [of _ "[SendAborted (if truthy captured then or_empty captured else cid)]"])
         (simp add: sendMessage_catch_def Let_def)
  next
    case False
    with ErrorObj show ?thesis
      by (intro exI [of _ "[SendFailed (if truthy captured then or_empty captured else cid) e]"])
         (simp add: sendMessage_catch_def Let_def)
  qed
next
  case (NonError n)
  show ?thesis
  proof (cases "n = Some (js ''AbortError'')")
    case True
    with NonError show ?thesis
      by (intro exI [of _ "[SendAborted (if truthy captured then or_empty captured else cid)]"])
         (simp add: sendMessage_catch_def Let_def)
  next
    case False
    with NonError show ?thesis
      by (intro exI [of _ "[SendFailed (if truthy captured then or_empty captured else cid) e]"])
         (simp add: sendMessage_catch_def Let_def)
  qed
next
  case Nullish
  then show ?thesis
    by (intro exI [of _ "[]"]) (simp add: sendMessage_catch_def Let_def)
qed

lemma in_flight_count_Nil: "in_flight_count [] = 0"
  by (simp add: in_flight_count_def)

lemma in_flight_count_append:
  "in_flight_count (xs @ ys) = in_flight_count xs + in_flight_count ys"
  by (simp add: in_flight_count_def)

lemma in_flight_count_filter: "in_flight_count (filter P xs) \<le> in_flight_count xs"
  unfolding in_flight_count_def by (induction xs) auto

lemma in_flight_count_map:
  assumes "\<And>m. in_flight (f m) \<Longrightarrow> in_flight m"
  shows "in_flight_count (map f xs) \<le> in_flight_count xs"
  unfolding in_flight_count_def using assms by (induction xs) auto

lemma in_flight_count_rekey:
  "in_flight_count (map (\<lambda>msg. msg\<lparr>chatId := c\<rparr>) xs) = in_flight_count xs"
  unfolding in_flight_count_def by (induction xs) (auto simp: in_flight_def)

lemma in_flight_count_settled:
  assumes "filter (\<lambda>msg. status msg = Some Typing) xs = []"
  shows "in_flight_count (filter (\<lambda>msg. status msg \<noteq> Some Thinking) xs) = 0"
  using assms unfolding in_flight_count_def
  by (induction xs) (auto simp: in_flight_def split: if_splits)

lemma in_flight_count_cancel_typing:
  "in_flight_count (map (\<lambda>msg. if status msg = Some Typing
       then msg\<lparr>content := c, status := Some Interrupted, wasInterrupted := Some True\<rparr>
       else msg) xs) \<le> in_flight_count xs"
  by (rule in_flight_count_map) (auto simp: in_flight_def split: if_splits)

lemma in_flight_count_cancel_thinking:
  "in_flight_count (map (\<lambda>msg. if status msg = Some Thinking
       then msg\<lparr>content := [], status := Some Interrupted, wasInterrupted := Some True,
                role := Assistant\<rparr>
       else msg) xs) \<le> in_flight_count xs"
  by (rule in_flight_count_map) (auto simp: in_flight_def split: if_splits)

lemma in_flight_count_complete:
  "in_flight_count (map (\<lambda>msg. if id_msg msg = mid
       then msg\<lparr>content := c, status := Some Sent\<rparr> else msg) xs) \<le> in_flight_count xs"
  by (rule in_flight_count_map) (auto simp: in_flight_def split: if_splits)

lemma in_flight_count_optimistic:
  "in_flight_count [userMessage clk cid text, thinkingMessage clk cid] = 1"
  by (simp add: in_flight_count_def in_flight_def userMessage_def thinkingMessage_def)

lemma in_flight_count_typing:
  "in_flight_count [aiResponse\<lparr>chatId := cid, status := Some Typing\<rparr>] = 1"
  by (simp add: in_flight_count_def in_flight_def)

text \<open>
  A second in-flight message can only come from three updates: an optimistic append to a
  chat that still holds an in-flight message, a reply appended to a chat that still holds
  a typing message, and a loaded page that itself holds in-flight messages. Every other
  update, and these three otherwise, keep every chat at one in-flight message at most.
\<close>

lemma msgs_of_cancelMessage_update:
  "in_flight_count (msgs_of (fst (cancelMessage_update i n cid s)) c) \<le> in_flight_count (msgs_of s c)"
proof -
  have a: "in_flight_count (msgs_of (fst (cancel_typing cid m s)) c) \<le> in_flight_count (msgs_of s c)" for m
    using in_flight_count_cancel_typing [of _ "msgs_of s cid"]
    by (simp add: cancel_typing_def Let_def msgs_of_def)
  have b: "in_flight_count (msgs_of (fst (cancel_thinking cid m m2 s)) c) \<le> in_flight_count (msgs_of s c)" for m m2
    using in_flight_count_cancel_thinking [of "msgs_of s cid"]
    by (simp add: cancel_thinking_def Let_def msgs_of_def)
  have c: "msgs_of (s\<lparr>isSendingMessage := False, typingMessage := None\<rparr>) c = msgs_of s c"
    by (simp add: msgs_of_def)
  show ?thesis
    by (simp add: cancelMessage_update_def Let_def a b c)
qed

lemma apply_update_single:
  assumes inv: "\<And>c. in_flight_count (msgs_of s c) \<le> 1" and adm: "admissible u s"
  shows "in_flight_count (msgs_of (apply_update u s) c) \<le> 1"
proof (cases u)
  case (LoadMessagesOk cid cursor response)
  with adm inv [of c] inv [of cid] show ?thesis
    by (simp add: loadMessages_ok_def Let_def msgs_of_def in_flight_count_append)
next
  case (SelectChat cid)
  with inv [of c] show ?thesis
    by (simp add: selectChat_update_def msgs_of_def in_flight_count_Nil)
next
  case (CreateNewChat cid)
  with inv [of c] show ?thesis
    by (simp add: createNewChat_update_def msgs_of_def in_flight_count_Nil)
next
  case (TypingComplete mid fullMessage)
  with inv [of c] in_flight_count_complete [of mid fullMessage "msgs_of s (or_empty (currentChatId s))"]
    inv [of "or_empty (currentChatId s)"]
  show ?thesis
    by (simp add: typing_complete_def Let_def msgs_of_def)
next
  case (SendRegister cid)
  with inv [of c] show ?thesis
    by (simp add: sendMessage_register_def msgs_of_def in_flight_count_Nil)
next
  case (SendOptimistic cid clk body)
  with adm inv [of c] show ?thesis
    using in_flight_count_optimistic [of clk cid body]
    by (simp add: sendMessage_optimistic_def msgs_of_def in_flight_count_append
        del: append.simps)
next
  case (SendRekey cid newChat)
  with inv [of c] inv [of cid] show ?thesis
    by (simp add: sendMessage_rekey_def Let_def msgs_of_def in_flight_count_rekey
        in_flight_count_Nil)
next
  case (SendReply cid aiResponse)
  with adm inv [of c] in_flight_count_settled [of "msgs_of s cid"]
  show ?thesis
    using in_flight_count_typing [of cid aiResponse]
    by (simp add: sendMessage_reply_def Let_def msgs_of_def in_flight_count_append)
next
  case (SendAborted cid)
  with inv [of c] inv [of cid]
    in_flight_count_filter [of "\<lambda>msg. status msg \<noteq> Some Thinking" "msgs_of s cid"]
  show ?thesis
    by (simp add: sendMessage_aborted_def msgs_of_def)
next
  case (SendFailed cid e)
  with inv [of c] inv [of cid]
    in_flight_count_filter [of "\<lambda>msg. status msg \<noteq> Some Thinking" "msgs_of s cid"]
  show ?thesis
    by (simp add: sendMessage_failed_def msgs_of_def)
next
  case (CancelMessage i n cid)
  with inv [of c] msgs_of_cancelMessage_update [of i n cid s c] show ?thesis
    by simp
next
  case (DeleteOk cid)
  with inv [of c] show ?thesis
    by (simp add: deleteChat_ok_def msgs_of_def in_flight_count_Nil)
qed (use inv [of c] in \<open>simp_all add: msgs_of_def loadChats_begin_def loadChats_ok_def
      loadChats_fail_def loadMessages_begin_def loadMessages_fail_def typing_reveal_def
      exportChat_fail_def clearError_def saveDraft_update_def deleteChat_begin_def
      deleteChat_fail_def\<close>)

end
